theory Spec2Isabelle
  imports Complex_Main
begin

section \<open>The API tester of \<^verbatim>\<open>api_tester.py\<close>\<close>

text \<open>
  The program issues HTTP GET requests in a sequential loop, classifies each
  outcome, records the elapsed time of each request and prints statistics
  every tenth request and once more at shutdown.  Everything the program
  reads from outside (the wall clock, the transport, the interrupt signal)
  is a field of the record \<open>world\<close>; everything it writes goes to the
  field \<open>stdout\<close>.  Python's floats are modelled by \<open>real\<close>: the only
  arithmetic fact the development depends on is that a division raises
  exactly when the divisor is zero.
\<close>

subsection \<open>Values\<close>

text \<open>What \<^verbatim>\<open>response.json()\<close> returns.\<close>

datatype json =
    JNull
  | JBool bool
  | JNumber real
  | JString string
  | JArray "json list"
  | JObject "(string \<times> json) list"

text \<open>
  The exceptions that can leave a function of the program.  An exception of
  class \<^verbatim>\<open>Exception\<close> raised inside \<^verbatim>\<open>make_request\<close> never leaves it (the
  handler of line 51 catches it), so only its text is kept, see \<open>Raised\<close>.
  \<open>KeyboardInterrupt\<close> stands for the interruption of the run (inside the
  coroutine a cancellation, which is not an \<^verbatim>\<open>Exception\<close>; at \<^verbatim>\<open>asyncio.run\<close>
  the \<^verbatim>\<open>KeyboardInterrupt\<close> that \<^verbatim>\<open>main\<close> catches).
\<close>

datatype exn = KeyboardInterrupt | ZeroDivisionError | TypeError

text \<open>
  The outcome of one \<^verbatim>\<open>await\<close>: a value, an \<^verbatim>\<open>Exception\<close> \<open>e\<close> (kept as
  \<^verbatim>\<open>str(e)\<close>), or the interruption delivered at that suspension point.
\<close>

datatype 'a awaited = Returned 'a | Raised string | Cancelled

text \<open>
  A response as the program uses it: its status, and what awaiting
  \<^verbatim>\<open>response.json()\<close> and \<^verbatim>\<open>response.text()\<close> gives.
\<close>

datatype response =
  Response (resp_status: int) (resp_json: "json awaited") (resp_text: "string awaited")

datatype body = JsonData json | TextData string

text \<open>
  The dictionary returned by \<^verbatim>\<open>make_request\<close>: keys \<^verbatim>\<open>timestamp\<close>, \<^verbatim>\<open>status\<close>,
  \<^verbatim>\<open>elapsed\<close>, \<^verbatim>\<open>response\<close> (lines 45-50), or \<^verbatim>\<open>timestamp\<close>, \<^verbatim>\<open>status\<close> (the
  string \<^verbatim>\<open>"ERROR"\<close>), \<^verbatim>\<open>elapsed\<close>, \<^verbatim>\<open>error\<close> (lines 55-60).
\<close>

datatype result =
    Response_record string int real body
  | Error_record string real string

datatype status = HTTP int | ERROR

fun result_status :: "result \<Rightarrow> status" where
  "result_status (Response_record ts st el b) = HTTP st"
| "result_status (Error_record ts el e) = ERROR"

fun result_elapsed :: "result \<Rightarrow> real" where
  "result_elapsed (Response_record ts st el b) = el"
| "result_elapsed (Error_record ts el e) = el"

fun result_timestamp :: "result \<Rightarrow> string" where
  "result_timestamp (Response_record ts st el b) = ts"
| "result_timestamp (Error_record ts el e) = ts"

text \<open>
  What the program prints, one constructor per \<^verbatim>\<open>print\<close> call, with the values
  that the call formats; the nine calls of lines 74-82 are the one
  \<open>StatsBlock\<close> (total, successful, errors, average, max, min, requests per
  second).
\<close>

datatype line =
    Starting string
  | Interval real
  | WillMake int
  | PressCtrlC
  | RequestLine int status real string
  | StatsBlock int int int real real real real
  | Interrupted

subsection \<open>The state of the tester and of the world\<close>

record tester =
  base_url :: string
  interval :: real
  max_requests :: "int option"
  request_count :: int
  success_count :: int
  error_count :: int
  response_times :: "real list"
  start_time :: "real option"

text \<open>
  \<open>clock w k\<close> is what the \<open>k\<close>-th call of \<^verbatim>\<open>time.time()\<close> returns,
  \<open>datetime_now w k\<close> what the \<open>k\<close>-th \<^verbatim>\<open>datetime.now().isoformat()\<close> returns,
  \<open>transport w url k\<close> what awaiting the \<open>k\<close>-th \<^verbatim>\<open>session.get(url)\<close> gives,
  \<open>sleep_cancelled w k\<close> whether the \<open>k\<close>-th \<^verbatim>\<open>asyncio.sleep\<close> is interrupted,
  and \<open>sigint_at_startup w\<close> whether the run is interrupted before line 92.
  The counters \<open>ticks\<close>, \<open>stamps\<close>, \<open>sent\<close> and \<open>slept\<close> say how many of
  each have happened.
\<close>

record world =
  clock :: "nat \<Rightarrow> real"
  ticks :: nat
  datetime_now :: "nat \<Rightarrow> string"
  stamps :: nat
  transport :: "string \<Rightarrow> nat \<Rightarrow> response awaited"
  sent :: nat
  sleep_cancelled :: "nat \<Rightarrow> bool"
  slept :: nat
  sigint_at_startup :: bool
  stdout :: "line list"

definition time_time :: "world \<Rightarrow> real \<times> world" where
  "time_time w = (clock w (ticks w), w\<lparr>ticks := Suc (ticks w)\<rparr>)"

definition now_isoformat :: "world \<Rightarrow> string \<times> world" where
  "now_isoformat w = (datetime_now w (stamps w), w\<lparr>stamps := Suc (stamps w)\<rparr>)"

definition session_get :: "string \<Rightarrow> world \<Rightarrow> response awaited \<times> world" where
  "session_get url w = (transport w url (sent w), w\<lparr>sent := Suc (sent w)\<rparr>)"

definition asyncio_sleep :: "real \<Rightarrow> world \<Rightarrow> bool \<times> world" where
  "asyncio_sleep d w = (sleep_cancelled w (slept w), w\<lparr>slept := Suc (slept w)\<rparr>)"

definition print :: "line \<Rightarrow> world \<Rightarrow> world" where
  "print l w = w\<lparr>stdout := stdout w @ [l]\<rparr>"

subsection \<open>\<^verbatim>\<open>APITester.__init__\<close> (lines 12-27)\<close>

definition rstrip :: "char \<Rightarrow> string \<Rightarrow> string" where
  "rstrip c s = rev (dropWhile (\<lambda>x. x = c) (rev s))"

definition APITester :: "string \<Rightarrow> real \<Rightarrow> int option \<Rightarrow> tester" where
  "APITester url ival cap =
     \<lparr>base_url = rstrip CHR ''/'' url, interval = ival, max_requests = cap,
      request_count = 0, success_count = 0, error_count = 0,
      response_times = [], start_time = None\<rparr>"

subsection \<open>\<^verbatim>\<open>APITester.make_request\<close> (lines 29-60)\<close>

text \<open>
  The handler of lines 51-60.  It runs on the tester as the \<^verbatim>\<open>try\<close> block left
  it; \<open>t0\<close> is the local \<^verbatim>\<open>start_time\<close> of line 31.
\<close>

definition except_Exception :: "string \<Rightarrow> real \<Rightarrow> tester \<Rightarrow> world \<Rightarrow> (exn + result) \<times> tester \<times> world" where
  "except_Exception e t0 t w =
     (let t1 = t\<lparr>error_count := error_count t + 1\<rparr>;
          (now, w1) = time_time w;
          elapsed = now - t0;
          t2 = t1\<lparr>response_times := response_times t1 @ [elapsed]\<rparr>;
          (ts, w2) = now_isoformat w1
      in (Inr (Error_record ts elapsed e), t2, w2))"

definition make_request :: "tester \<Rightarrow> world \<Rightarrow> (exn + result) \<times> tester \<times> world" where
  "make_request t w =
     (let (t0, w1) = time_time w;
          (got, w2) = session_get (base_url t @ ''/api/jokes/whatever'') w1
      in case got of
           Cancelled \<Rightarrow> (Inl KeyboardInterrupt, t, w2)
         | Raised e \<Rightarrow> except_Exception e t0 t w2
         | Returned r \<Rightarrow>
             (let (now, w3) = time_time w2;
                  elapsed = now - t0;
                  t1 = t\<lparr>response_times := response_times t @ [elapsed]\<rparr>
              in if resp_status r = 200 then
                   (let t2 = t1\<lparr>success_count := success_count t1 + 1\<rparr>
                    in case resp_json r of
                         Cancelled \<Rightarrow> (Inl KeyboardInterrupt, t2, w3)
                       | Raised e \<Rightarrow> except_Exception e t0 t2 w3
                       | Returned d \<Rightarrow>
                           (let (ts, w4) = now_isoformat w3
                            in (Inr (Response_record ts (resp_status r) elapsed (JsonData d)), t2, w4)))
                 else
                   (let t2 = t1\<lparr>error_count := error_count t1 + 1\<rparr>
                    in case resp_text r of
                         Cancelled \<Rightarrow> (Inl KeyboardInterrupt, t2, w3)
                       | Raised e \<Rightarrow> except_Exception e t0 t2 w3
                       | Returned d \<Rightarrow>
                           (let (ts, w4) = now_isoformat w3
                            in (Inr (Response_record ts (resp_status r) elapsed (TextData d)), t2, w4)))))"

subsection \<open>\<^verbatim>\<open>APITester.print_stats\<close> (lines 62-82)\<close>

text \<open>Python's \<^verbatim>\<open>max\<close> and \<^verbatim>\<open>min\<close> of a list that has a first element.\<close>

definition py_max :: "real \<Rightarrow> real list \<Rightarrow> real" where
  "py_max x xs = fold max xs x"

definition py_min :: "real \<Rightarrow> real list \<Rightarrow> real" where
  "py_min x xs = fold min xs x"

text \<open>
  The method returns the tester it was given, so that what it does to the
  tester is part of its value.  \<^verbatim>\<open>time.time() - self.start_time\<close> raises
  \<^verbatim>\<open>TypeError\<close> when \<^verbatim>\<open>start_time\<close> is \<^verbatim>\<open>None\<close>, and the division of line 72 raises
  \<^verbatim>\<open>ZeroDivisionError\<close> when \<^verbatim>\<open>elapsed\<close> is zero.
\<close>

definition print_stats :: "tester \<Rightarrow> world \<Rightarrow> (exn + unit) \<times> tester \<times> world" where
  "print_stats t w =
     (case response_times t of
        [] \<Rightarrow> (Inr (), t, w)
      | x # xs \<Rightarrow>
          (let avg_response = sum_list (response_times t) / real (length (response_times t));
               max_response = py_max x xs;
               min_response = py_min x xs;
               (now, w1) = time_time w
           in case start_time t of
                None \<Rightarrow> (Inl TypeError, t, w1)
              | Some s \<Rightarrow>
                  (let elapsed = now - s
                   in if elapsed = 0 then (Inl ZeroDivisionError, t, w1)
                      else
                        (let requests_per_second = real_of_int (request_count t) / elapsed
                         in (Inr (), t,
                             print (StatsBlock (request_count t) (success_count t) (error_count t)
                                      avg_response max_response min_response requests_per_second) w1)))))"

subsection \<open>\<^verbatim>\<open>APITester.run\<close> (lines 84-112)\<close>

text \<open>Python's truth value of \<^verbatim>\<open>self.max_requests\<close>: \<^verbatim>\<open>None\<close> and \<^verbatim>\<open>0\<close> are false.\<close>

fun truthy :: "int option \<Rightarrow> bool" where
  "truthy None = False"
| "truthy (Some n) = (n \<noteq> 0)"

text \<open>The test of line 96.\<close>

definition cap_reached :: "tester \<Rightarrow> bool" where
  "cap_reached t =
     (case max_requests t of
        None \<Rightarrow> False
      | Some n \<Rightarrow> truthy (max_requests t) \<and> request_count t \<ge> n)"

text \<open>One iteration of the loop, lines 99-112.\<close>

definition loop_body :: "tester \<Rightarrow> world \<Rightarrow> (exn + unit) \<times> tester \<times> world" where
  "loop_body t w =
     (let t1 = t\<lparr>request_count := request_count t + 1\<rparr>
      in case make_request t1 w of
           (Inl e, t2, w2) \<Rightarrow> (Inl e, t2, w2)
         | (Inr res, t2, w2) \<Rightarrow>
             (let w3 = print (RequestLine (request_count t2) (result_status res)
                                (result_elapsed res) (result_timestamp res)) w2
              in case (if request_count t2 mod 10 = 0 then print_stats t2 w3
                       else (Inr (), t2, w3)) of
                   (Inl e, t3, w4) \<Rightarrow> (Inl e, t3, w4)
                 | (Inr u, t3, w4) \<Rightarrow>
                     (let (cancelled, w5) = asyncio_sleep (interval t3) w4
                      in if cancelled then (Inl KeyboardInterrupt, t3, w5)
                         else (Inr (), t3, w5))))"

text \<open>
  The loop of lines 95-112.  It need not end, so it runs on fuel: \<open>None\<close>
  says that the loop is still running after \<open>n\<close> iterations.
\<close>

fun run_loop :: "nat \<Rightarrow> tester \<Rightarrow> world \<Rightarrow> ((exn + unit) \<times> tester \<times> world) option" where
  "run_loop 0 t w = (if cap_reached t then Some (Inr (), t, w) else None)"
| "run_loop (Suc n) t w =
     (if cap_reached t then Some (Inr (), t, w)
      else case loop_body t w of
             (Inl e, t', w') \<Rightarrow> Some (Inl e, t', w')
           | (Inr u, t', w') \<Rightarrow> run_loop n t' w')"

text \<open>The banner of lines 86-90.\<close>

definition print_banner :: "tester \<Rightarrow> world \<Rightarrow> world" where
  "print_banner t w =
     (let w1 = print (Starting (base_url t)) w;
          w2 = print (Interval (interval t)) w1;
          w3 = (case max_requests t of
                  None \<Rightarrow> w2
                | Some n \<Rightarrow> if truthy (max_requests t) then print (WillMake n) w2 else w2)
      in print PressCtrlC w3)"

definition run :: "nat \<Rightarrow> tester \<Rightarrow> world \<Rightarrow> ((exn + unit) \<times> tester \<times> world) option" where
  "run n t w =
     (let w4 = print_banner t w
      in if sigint_at_startup w4 then Some (Inl KeyboardInterrupt, t, w4)
         else
           (let (now, w5) = time_time w4;
                t1 = t\<lparr>start_time := Some now\<rparr>
            in run_loop n t1 w5))"

subsection \<open>\<^verbatim>\<open>main\<close> (lines 115-132)\<close>

text \<open>
  The arguments are the parsed command line.  An exception raised by the
  final \<^verbatim>\<open>print_stats\<close> of the \<^verbatim>\<open>finally\<close> clause replaces the one in flight.
\<close>

definition main :: "nat \<Rightarrow> string \<Rightarrow> real \<Rightarrow> int option \<Rightarrow> world \<Rightarrow> ((exn + unit) \<times> tester \<times> world) option" where
  "main n url ival num_requests w =
     (let tester = APITester url ival num_requests
      in case run n tester w of
           None \<Rightarrow> None
         | Some (r, t1, w1) \<Rightarrow>
             (let (r', w2) = (case r of
                                Inl KeyboardInterrupt \<Rightarrow> (Inr (), print Interrupted w1)
                              | _ \<Rightarrow> (r, w1))
              in case print_stats t1 w2 of
                   (Inl e, t2, w3) \<Rightarrow> Some (Inl e, t2, w3)
                 | (Inr u, t2, w3) \<Rightarrow> Some (r', t2, w3)))"

subsection \<open>Reading the output\<close>

text \<open>
  The request lines and statistics blocks of an output, in order: \<open>Inl k\<close>
  for the line of request \<open>k\<close>, \<open>Inr k\<close> for a statistics block whose total is
  \<open>k\<close>.
\<close>

fun marks :: "line list \<Rightarrow> (int + int) list" where
  "marks [] = []"
| "marks (RequestLine k st el ts # ls) = Inl k # marks ls"
| "marks (StatsBlock k s e av mx mn rps # ls) = Inr k # marks ls"
| "marks (l # ls) = marks ls"

text \<open>
  What the loop prints for request \<open>k\<close> when nothing goes wrong: its line,
  and a statistics block when \<open>k\<close> is a multiple of 10 (line 109).
\<close>

definition marks_of_request :: "int \<Rightarrow> (int + int) list" where
  "marks_of_request k = (if k mod 10 = 0 then [Inl k, Inr k] else [Inl k])"

text \<open>
  A world in which no interruption is delivered at any suspension point of
  the run.
\<close>

definition uninterrupted :: "world \<Rightarrow> bool" where
  "uninterrupted w \<longleftrightarrow>
     \<not> sigint_at_startup w \<and>
     (\<forall>k. \<not> sleep_cancelled w k) \<and>
     (\<forall>url k. transport w url k \<noteq> Cancelled) \<and>
     (\<forall>url k r. transport w url k = Returned r \<longrightarrow>
        resp_json r \<noteq> Cancelled \<and> resp_text r \<noteq> Cancelled)"

text \<open>The part of the world that the program reads and cannot change.\<close>

definition env :: "world \<Rightarrow> (nat \<Rightarrow> real) \<times> (nat \<Rightarrow> string) \<times> (string \<Rightarrow> nat \<Rightarrow> response awaited) \<times> (nat \<Rightarrow> bool) \<times> bool" where
  "env w = (clock w, datetime_now w, transport w, sleep_cancelled w, sigint_at_startup w)"

subsection \<open>Concrete worlds\<close>

text \<open>
  A world that answers every request with \<open>r\<close>, whose clock reads \<open>tick k\<close>
  at the \<open>k\<close>-th reading and in which nobody interrupts.
\<close>

definition world_of :: "(nat \<Rightarrow> real) \<Rightarrow> response awaited \<Rightarrow> world" where
  "world_of tick r =
     \<lparr>clock = tick, ticks = 0, datetime_now = (\<lambda>k. ''2024-01-01T00:00:00''), stamps = 0,
      transport = (\<lambda>url k. r), sent = 0, sleep_cancelled = (\<lambda>k. False), slept = 0,
      sigint_at_startup = False, stdout = []\<rparr>"

text \<open>A clock that advances by one second between two readings, and one that
  does not advance at all (a coarse timer read several times within one tick).\<close>

definition ticking :: "nat \<Rightarrow> real" where
  "ticking k = real k"

definition frozen :: "nat \<Rightarrow> real" where
  "frozen k = 1000"

text \<open>Status 200 with a JSON body; status 200 with a body that is not JSON;
  status 500 with a text body.\<close>

definition ok_response :: response where
  "ok_response = Response 200 (Returned (JObject [(''ok'', JBool True)])) (Returned ''{ok:true}'')"

definition html_response :: response where
  "html_response = Response 200 (Raised ''Expecting value'') (Returned ''<html>'')"

definition server_error :: response where
  "server_error = Response 500 (Raised ''Expecting value'') (Returned ''Internal Server Error'')"

text \<open>Status 200 with a JSON body served under a content type that
  \<^verbatim>\<open>response.json()\<close> refuses; status 503 with a body that does not decode as
  text.\<close>

definition mistyped_response :: response where
  "mistyped_response = Response 200 (Raised ''unexpected mimetype: text/plain'') (Returned ''[1, 2]'')"

definition undecodable_error :: response where
  "undecodable_error = Response 503 (Raised ''invalid start byte'') (Raised ''invalid start byte'')"

section \<open>Properties\<close>

lemmas world_ops = time_time_def session_get_def now_isoformat_def asyncio_sleep_def print_def

subsection \<open>What each operation changes\<close>

lemma marks_append: "marks (xs @ ys) = marks xs @ marks ys"
  by (induction xs rule: marks.induct) simp_all

lemma uninterrupted_env: "env w' = env w \<Longrightarrow> uninterrupted w' = uninterrupted w"
  by (simp add: env_def uninterrupted_def)

lemma except_Exception_frame:
  assumes "except_Exception e t0 t w = (r, t', w')"
  shows "max_requests t' = max_requests t \<and> request_count t' = request_count t
       \<and> start_time t' = start_time t \<and> base_url t' = base_url t \<and> interval t' = interval t
       \<and> env w' = env w \<and> stdout w' = stdout w \<and> slept w' = slept w \<and> sent w' = sent w
       \<and> ticks w \<le> ticks w' \<and> response_times t' \<noteq> [] \<and> (\<exists>res. r = Inr res)"
  using assms by (auto simp: except_Exception_def world_ops env_def Let_def)

lemma make_request_frame:
  assumes "make_request t w = (r, t', w')"
  shows "max_requests t' = max_requests t \<and> request_count t' = request_count t
       \<and> start_time t' = start_time t \<and> base_url t' = base_url t \<and> interval t' = interval t
       \<and> env w' = env w \<and> stdout w' = stdout w \<and> slept w' = slept w \<and> sent w' = Suc (sent w)
       \<and> ticks w \<le> ticks w'"
  using assms
  by (auto simp: make_request_def except_Exception_def world_ops env_def Let_def
           split: awaited.splits if_splits)

lemma make_request_result:
  assumes "make_request t w = (r, t', w')"
  shows "r = Inl KeyboardInterrupt \<or> (\<exists>res. r = Inr res \<and> response_times t' \<noteq> [])"
  using assms
  by (auto simp: make_request_def except_Exception_def world_ops Let_def
           split: awaited.splits if_splits)

lemma make_request_uninterrupted:
  assumes "uninterrupted w" "make_request t w = (r, t', w')"
  shows "\<exists>res. r = Inr res"
  using assms
  by (auto simp: make_request_def except_Exception_def world_ops Let_def uninterrupted_def
           split: awaited.splits if_splits)

lemma print_stats_frame': "print_stats t w = (r, t', w') \<Longrightarrow> t' = t \<and> env w' = env w \<and> ticks w \<le> ticks w' \<and> slept w' = slept w \<and> sent w' = sent w"
  by (auto simp: print_stats_def world_ops env_def Let_def split: list.splits option.splits if_splits)

lemma print_stats_TypeError:
  "fst (print_stats t w) = Inl TypeError \<longleftrightarrow> response_times t \<noteq> [] \<and> start_time t = None"
  by (auto simp: print_stats_def world_ops Let_def split: list.splits option.splits if_splits)

lemma print_stats_emits:
  assumes "response_times t \<noteq> []" "start_time t = Some s" "clock w (ticks w) \<noteq> s"
  shows "\<exists>w'. print_stats t w = (Inr (), t, w') \<and> marks (stdout w') = marks (stdout w) @ [Inr (request_count t)]"
  using assms
  by (auto simp: print_stats_def world_ops Let_def marks_append split: list.splits)


lemma loop_body_frame:
  assumes "loop_body t w = (r, t', w')"
  shows "max_requests t' = max_requests t \<and> start_time t' = start_time t
       \<and> env w' = env w \<and> ticks w \<le> ticks w'
       \<and> (start_time t \<noteq> None \<longrightarrow> r \<noteq> Inl TypeError)"
proof -
  let ?t1 = "t\<lparr>request_count := request_count t + 1\<rparr>"
  obtain r2 t2 w2 where mr: "make_request ?t1 w = (r2, t2, w2)"
    by (cases "make_request ?t1 w") auto
  note f = make_request_frame [OF mr] and res = make_request_result [OF mr]
  show ?thesis
  proof (cases r2)
    case (Inl e)
    with assms mr res f show ?thesis by (auto simp: loop_body_def)
  next
    case (Inr res')
    let ?w3 = "print (RequestLine (request_count t2) (result_status res') (result_elapsed res') (result_timestamp res')) w2"
    obtain r3 t3 w4 where ps: "(if request_count t2 mod 10 = 0 then print_stats t2 ?w3 else (Inr (), t2, ?w3)) = (r3, t3, w4)"
      by (cases "(if request_count t2 mod 10 = 0 then print_stats t2 ?w3 else (Inr (), t2, ?w3))") auto
    have t3: "t3 = t2" and e4: "env w4 = env w2" and k4: "ticks w2 \<le> ticks w4"
      using ps print_stats_frame' [of t2 ?w3 r3 t3 w4]
      by (auto simp: print_def env_def split: if_splits)
    have ty: "start_time t2 \<noteq> None \<Longrightarrow> r3 \<noteq> Inl TypeError"
      using ps print_stats_TypeError [of t2 ?w3] by (auto split: if_splits)
    from mr Inr ps have "loop_body t w =
        (case r3 of Inl e \<Rightarrow> (Inl e, t3, w4)
         | Inr u \<Rightarrow> (let (cancelled, w5) = asyncio_sleep (interval t3) w4
                     in if cancelled then (Inl KeyboardInterrupt, t3, w5) else (Inr (), t3, w5)))"
      by (simp add: loop_body_def Let_def split: sum.splits)
    with assms f t3 e4 k4 ty show ?thesis
      by (auto simp: asyncio_sleep_def env_def Let_def split: sum.splits if_splits)
  qed
qed

lemma loop_body_runs:
  assumes "uninterrupted w" "start_time t = Some s" "\<forall>k\<ge>ticks w. clock w k \<noteq> s"
  shows "\<exists>t' w'. loop_body t w = (Inr (), t', w') \<and> request_count t' = request_count t + 1
       \<and> marks (stdout w') = marks (stdout w) @ marks_of_request (request_count t + 1)
       \<and> response_times t' \<noteq> [] \<and> sent w' = Suc (sent w)"
proof -
  let ?t1 = "t\<lparr>request_count := request_count t + 1\<rparr>"
  obtain r2 t2 w2 where mr: "make_request ?t1 w = (r2, t2, w2)"
    by (cases "make_request ?t1 w") auto
  note f = make_request_frame [OF mr]
  from make_request_uninterrupted [OF assms(1) mr] obtain res where r2: "r2 = Inr res" by auto
  with make_request_result [OF mr] have ne: "response_times t2 \<noteq> []" by auto
  let ?w3 = "print (RequestLine (request_count t2) (result_status res) (result_elapsed res) (result_timestamp res)) w2"
  have m3: "marks (stdout ?w3) = marks (stdout w) @ [Inl (request_count t + 1)]"
    using f by (simp add: print_def marks_append)
  have c3: "clock ?w3 (ticks ?w3) \<noteq> s"
    using f assms(3) by (simp add: print_def env_def)
  have st: "start_time t2 = Some s" using f assms(2) by simp
  have "\<exists>w4. (if request_count t2 mod 10 = 0 then print_stats t2 ?w3 else (Inr (), t2, ?w3)) = (Inr (), t2, w4)
        \<and> marks (stdout w4) = marks (stdout w) @ marks_of_request (request_count t + 1)
        \<and> sleep_cancelled w4 = sleep_cancelled w \<and> sent w4 = Suc (sent w)"
  proof (cases "request_count t2 mod 10 = 0")
    case True
    from print_stats_emits [OF ne st c3] obtain w4 where
      p: "print_stats t2 ?w3 = (Inr (), t2, w4)"
      and m: "marks (stdout w4) = marks (stdout ?w3) @ [Inr (request_count t2)]" by auto
    from print_stats_frame' [OF p] f have "sleep_cancelled w4 = sleep_cancelled w \<and> sent w4 = Suc (sent w)"
      by (simp add: env_def print_def)
    with True p m m3 f show ?thesis by (simp add: marks_of_request_def)
  next
    case False
    with m3 f show ?thesis by (simp add: marks_of_request_def print_def env_def)
  qed
  then obtain w4 where
    p: "(if request_count t2 mod 10 = 0 then print_stats t2 ?w3 else (Inr (), t2, ?w3)) = (Inr (), t2, w4)"
    and m4: "marks (stdout w4) = marks (stdout w) @ marks_of_request (request_count t + 1)"
    and s4: "sleep_cancelled w4 = sleep_cancelled w" and n4: "sent w4 = Suc (sent w)" by auto
  have "\<not> sleep_cancelled w4 (slept w4)"
    using s4 assms(1) by (simp add: uninterrupted_def)
  then have "loop_body t w = (Inr (), t2, w4\<lparr>slept := Suc (slept w4)\<rparr>)"
    using mr r2 p by (simp add: loop_body_def asyncio_sleep_def Let_def)
  with m4 n4 ne f show ?thesis by simp
qed


lemma run_loop_completes:
  assumes "uninterrupted w" "start_time t = Some s" "\<forall>k\<ge>ticks w. clock w k \<noteq> s"
    and "max_requests t = Some c" "c \<noteq> 0" "request_count t \<le> c" "nat (c - request_count t) \<le> n"
  shows "\<exists>t' w'. run_loop n t w = Some (Inr (), t', w') \<and> request_count t' = c
       \<and> start_time t' = Some s \<and> env w' = env w \<and> ticks w \<le> ticks w'
       \<and> marks (stdout w') = marks (stdout w) @ concat (map marks_of_request [request_count t + 1..c])
       \<and> (response_times t \<noteq> [] \<or> request_count t < c \<longrightarrow> response_times t' \<noteq> [])
       \<and> sent w' = sent w + nat (c - request_count t)"
  using assms
proof (induction n arbitrary: t w)
  case 0
  then have eq: "request_count t = c" by simp
  have "cap_reached t" using eq 0 by (simp add: cap_reached_def)
  then have "run_loop 0 t w = Some (Inr (), t, w)" by simp
  moreover have "[request_count t + 1..c] = []" using eq by simp
  ultimately show ?case using eq 0(2) by simp
next
  case (Suc n)
  show ?case
  proof (cases "request_count t = c")
    case True
    have "cap_reached t" using True Suc.prems(4,5) by (simp add: cap_reached_def)
    then have "run_loop (Suc n) t w = Some (Inr (), t, w)" by simp
    moreover have "[request_count t + 1..c] = []" using True by simp
    ultimately show ?thesis using True Suc.prems(2) by simp
  next
    case False
    with Suc.prems(6) have lt: "request_count t < c" by simp
    then have nc: "\<not> cap_reached t" using Suc.prems(4) by (simp add: cap_reached_def)
    from loop_body_runs [OF Suc.prems(1,2,3)] obtain t1 w1 where
      lb: "loop_body t w = (Inr (), t1, w1)" and rc: "request_count t1 = request_count t + 1"
      and m1: "marks (stdout w1) = marks (stdout w) @ marks_of_request (request_count t + 1)"
      and ne: "response_times t1 \<noteq> []" and s1: "sent w1 = Suc (sent w)" by blast
    from loop_body_frame [OF lb] have
      fm: "max_requests t1 = max_requests t" and fs: "start_time t1 = start_time t"
      and fe: "env w1 = env w" and fk: "ticks w \<le> ticks w1" by simp_all
    have u1: "uninterrupted w1" using uninterrupted_env [OF fe] Suc.prems(1) by simp
    have st1: "start_time t1 = Some s" using fs Suc.prems(2) by simp
    have "clock w1 = clock w" using fe by (simp add: env_def)
    then have ck1: "\<forall>k\<ge>ticks w1. clock w1 k \<noteq> s"
      using fk Suc.prems(3) by simp
    have mx1: "max_requests t1 = Some c" using fm Suc.prems(4) by simp
    have le1: "request_count t1 \<le> c" using rc lt by simp
    have fu1: "nat (c - request_count t1) \<le> n" using rc Suc.prems(7) by simp
    from Suc.IH [OF u1 st1 ck1 mx1 Suc.prems(5) le1 fu1] obtain t' w' where
      ih: "run_loop n t1 w1 = Some (Inr (), t', w') \<and> request_count t' = c
       \<and> start_time t' = Some s \<and> env w' = env w1 \<and> ticks w1 \<le> ticks w'
       \<and> marks (stdout w') = marks (stdout w1) @ concat (map marks_of_request [request_count t1 + 1..c])
       \<and> (response_times t1 \<noteq> [] \<or> request_count t1 < c \<longrightarrow> response_times t' \<noteq> [])
       \<and> sent w' = sent w1 + nat (c - request_count t1)"
      by (elim exE)
    have up: "[request_count t + 1..c] = (request_count t + 1) # [request_count t1 + 1..c]"
      using lt by (subst upto_rec1) (simp_all add: rc)
    have g1: "run_loop (Suc n) t w = Some (Inr (), t', w')"
      using nc lb ih by simp
    have g2: "env w' = env w" using ih fe by simp
    have g3: "ticks w \<le> ticks w'" using ih fk by linarith
    have g4: "marks (stdout w') = marks (stdout w) @ concat (map marks_of_request [request_count t + 1..c])"
      using ih by (simp add: up m1)
    have g5: "response_times t' \<noteq> []" using ih ne by simp
    have g6: "sent w' = sent w + nat (c - request_count t)"
      using ih s1 rc lt by simp
    from g1 g2 g3 g4 g5 g6 ih show ?thesis by blast
  qed
qed

lemma run_loop_start_time:
  "run_loop n t w = Some (r, t', w') \<Longrightarrow>
     start_time t' = start_time t \<and> (start_time t \<noteq> None \<longrightarrow> r \<noteq> Inl TypeError)"
proof (induction n arbitrary: t w)
  case 0
  then show ?case by (auto split: if_splits)
next
  case (Suc n)
  show ?case
  proof (cases "cap_reached t")
    case True
    with Suc.prems show ?thesis by auto
  next
    case False
    obtain r1 t1 w1 where lb: "loop_body t w = (r1, t1, w1)"
      by (cases "loop_body t w") auto
    note f = loop_body_frame [OF lb]
    show ?thesis
    proof (cases r1)
      case (Inl e)
      with Suc.prems False lb f show ?thesis by auto
    next
      case (Inr u)
      with Suc.prems False lb have "run_loop n t1 w1 = Some (r, t', w')" by simp
      from Suc.IH [OF this] f show ?thesis by simp
    qed
  qed
qed

lemma print_banner_frame:
  "env (print_banner t w) = env w \<and> ticks (print_banner t w) = ticks w
   \<and> marks (stdout (print_banner t w)) = marks (stdout w)
   \<and> sent (print_banner t w) = sent w"
  by (simp add: print_banner_def print_def env_def Let_def marks_append split: option.split)

lemma run_start_time:
  assumes "run n (APITester url ival cap) w = Some (r, t', w')"
  shows "(response_times t' \<noteq> [] \<longrightarrow> start_time t' \<noteq> None) \<and> r \<noteq> Inl TypeError"
proof (cases "sigint_at_startup (print_banner (APITester url ival cap) w)")
  case True
  with assms have "t' = APITester url ival cap" and "r = Inl KeyboardInterrupt"
    by (simp_all add: run_def Let_def)
  then show ?thesis by (simp add: APITester_def)
next
  case False
  let ?t = "APITester url ival cap"
  let ?w4 = "print_banner ?t w"
  from False assms have
    "run_loop n (?t\<lparr>start_time := Some (clock ?w4 (ticks ?w4))\<rparr>) (?w4\<lparr>ticks := Suc (ticks ?w4)\<rparr>) = Some (r, t', w')"
    by (simp add: run_def time_time_def Let_def)
  from run_loop_start_time [OF this] show ?thesis by simp
qed

lemma main_no_TypeError:
  assumes "main n url ival cap w = Some (r, t', w')"
  shows "r \<noteq> Inl TypeError"
proof -
  from assms obtain r1 t1 w1 where rn: "run n (APITester url ival cap) w = Some (r1, t1, w1)"
    by (auto simp: main_def Let_def split: option.splits)
  note inv = run_start_time [OF rn]
  let ?w2 = "case r1 of Inl KeyboardInterrupt \<Rightarrow> print Interrupted w1 | _ \<Rightarrow> w1"
  let ?r' = "case r1 of Inl KeyboardInterrupt \<Rightarrow> Inr () | _ \<Rightarrow> r1"
  have r': "?r' \<noteq> Inl TypeError" using inv by (auto split: sum.splits exn.splits)
  have ps: "fst (print_stats t1 ?w2) \<noteq> Inl TypeError"
    using inv by (auto simp: print_stats_TypeError)
  have "main n url ival cap w =
     (case print_stats t1 ?w2 of (Inl e, t2, w3) \<Rightarrow> Some (Inl e, t2, w3) | (Inr u, t2, w3) \<Rightarrow> Some (?r', t2, w3))"
    using rn by (auto simp: main_def Let_def split: sum.splits exn.splits)
  with assms ps r' show ?thesis
    by (cases "print_stats t1 ?w2") (auto split: sum.splits)
qed

subsection \<open>The statistics operation\<close>

text \<open>
  Claim C5.  In every state in which no duration sample has been recorded,
  \<open>print_stats\<close> is a no-op: it returns normally, the tester is unchanged and
  so is the world (nothing is printed and the clock is not even read).
\<close>

theorem print_stats_no_samples:
  "response_times t = [] \<Longrightarrow> print_stats t w = (Inr (), t, w)"
  by (simp add: print_stats_def)

theorem print_stats_no_samples_witness:
  "response_times (APITester ''http://x/'' 0 (Some 0)) = [] \<and>
   print_stats (APITester ''http://x/'' 0 (Some 0)) (world_of ticking (Returned ok_response))
     = (Inr (), APITester ''http://x/'' 0 (Some 0), world_of ticking (Returned ok_response))"
  using print_stats_no_samples [of "APITester ''http://x/'' 0 (Some 0)" "world_of ticking (Returned ok_response)"]
  by (simp add: APITester_def)

text \<open>
  Claim C9.  \<open>print_stats\<close> leaves the tester as it found it, whatever the
  state and the world and whether it prints, returns early or raises: no
  counter, the sample list, the start timestamp or the configuration changes.
\<close>

theorem print_stats_keeps_tester: "fst (snd (print_stats t w)) = t"
  by (simp add: print_stats_def time_time_def Let_def split: list.split option.split)

subsection \<open>One request\<close>

text \<open>
  Claim C7.  When the transport fails (awaiting \<^verbatim>\<open>session.get\<close> raises an
  \<^verbatim>\<open>Exception\<close> with text \<open>e\<close>), \<open>make_request\<close> returns normally with an
  error record that carries \<open>e\<close>; the error counter has grown by one, exactly
  one duration sample (the time from line 31 to line 53) has been appended,
  and nothing else of the tester has changed.  The loop is not aborted: when
  the cap is not reached, this is no statistics iteration and the pacing sleep
  is not interrupted, the loop goes on with its next iteration.
\<close>

theorem make_request_transport_failure:
  assumes "transport w (base_url t @ ''/api/jokes/whatever'') (sent w) = Raised e"
  shows "make_request t w =
     (Inr (Error_record (datetime_now w (stamps w)) (clock w (Suc (ticks w)) - clock w (ticks w)) e),
      t\<lparr>error_count := error_count t + 1,
        response_times := response_times t @ [clock w (Suc (ticks w)) - clock w (ticks w)]\<rparr>,
      w\<lparr>ticks := Suc (Suc (ticks w)), sent := Suc (sent w), stamps := Suc (stamps w)\<rparr>)
   \<and> (\<not> cap_reached t \<longrightarrow> (request_count t + 1) mod 10 \<noteq> 0 \<longrightarrow> \<not> sleep_cancelled w (slept w) \<longrightarrow>
        run_loop (Suc n) t w =
        run_loop n
          (t\<lparr>request_count := request_count t + 1, error_count := error_count t + 1,
             response_times := response_times t @ [clock w (Suc (ticks w)) - clock w (ticks w)]\<rparr>)
          (w\<lparr>ticks := Suc (Suc (ticks w)), sent := Suc (sent w), stamps := Suc (stamps w),
             stdout := stdout w @ [RequestLine (request_count t + 1) ERROR
                (clock w (Suc (ticks w)) - clock w (ticks w)) (datetime_now w (stamps w))],
             slept := Suc (slept w)\<rparr>))"
proof -
  let ?el = "clock w (Suc (ticks w)) - clock w (ticks w)"
  have req: "\<And>u. base_url u = base_url t \<Longrightarrow> make_request u w =
     (Inr (Error_record (datetime_now w (stamps w)) ?el e),
      u\<lparr>error_count := error_count u + 1, response_times := response_times u @ [?el]\<rparr>,
      w\<lparr>ticks := Suc (Suc (ticks w)), sent := Suc (sent w), stamps := Suc (stamps w)\<rparr>)"
    using assms
    by (simp add: make_request_def except_Exception_def world_ops Let_def)
  show ?thesis
  proof (intro conjI impI)
    show "make_request t w =
     (Inr (Error_record (datetime_now w (stamps w)) ?el e),
      t\<lparr>error_count := error_count t + 1, response_times := response_times t @ [?el]\<rparr>,
      w\<lparr>ticks := Suc (Suc (ticks w)), sent := Suc (sent w), stamps := Suc (stamps w)\<rparr>)"
      by (rule req) simp
  next
    assume "\<not> cap_reached t" "(request_count t + 1) mod 10 \<noteq> 0" "\<not> sleep_cancelled w (slept w)"
    then show "run_loop (Suc n) t w =
        run_loop n
          (t\<lparr>request_count := request_count t + 1, error_count := error_count t + 1,
             response_times := response_times t @ [?el]\<rparr>)
          (w\<lparr>ticks := Suc (Suc (ticks w)), sent := Suc (sent w), stamps := Suc (stamps w),
             stdout := stdout w @ [RequestLine (request_count t + 1) ERROR ?el (datetime_now w (stamps w))],
             slept := Suc (slept w)\<rparr>)"
      by (simp add: loop_body_def req world_ops Let_def)
  qed
qed

theorem make_request_transport_failure_witness:
  "transport (world_of ticking (Raised ''Connection refused''))
      (base_url (APITester ''http://x/'' 0 (Some 1)) @ ''/api/jokes/whatever'')
      (sent (world_of ticking (Raised ''Connection refused''))) = Raised ''Connection refused''
   \<and> \<not> cap_reached (APITester ''http://x/'' 0 (Some 1))
   \<and> \<not> sleep_cancelled (world_of ticking (Raised ''Connection refused''))
          (slept (world_of ticking (Raised ''Connection refused'')))
   \<and> fst (make_request (APITester ''http://x/'' 0 (Some 1)) (world_of ticking (Raised ''Connection refused'')))
       = Inr (Error_record ''2024-01-01T00:00:00'' 1 ''Connection refused'')
   \<and> error_count (fst (snd (make_request (APITester ''http://x/'' 0 (Some 1))
         (world_of ticking (Raised ''Connection refused''))))) = 1
   \<and> success_count (fst (snd (make_request (APITester ''http://x/'' 0 (Some 1))
         (world_of ticking (Raised ''Connection refused''))))) = 0
   \<and> response_times (fst (snd (make_request (APITester ''http://x/'' 0 (Some 1))
         (world_of ticking (Raised ''Connection refused''))))) = [1]
   \<and> fst (the (run_loop (Suc 0) (APITester ''http://x/'' 0 (Some 1))
         (world_of ticking (Raised ''Connection refused'')))) = Inr ()"
  using make_request_transport_failure [of "world_of ticking (Raised ''Connection refused'')"
      "APITester ''http://x/'' 0 (Some 1)" "''Connection refused''" 0]
  by (simp add: world_of_def APITester_def ticking_def cap_reached_def)

text \<open>
  Claim C6, as the code has it.  The claim says that the status alone decides:
  status 200 with a valid JSON body is always a success with the parsed body
  attached, any other status always an error with the raw text attached,
  whatever the body is.  Both reads of the body happen inside the \<^verbatim>\<open>try\<close> block
  (lines 40 and 43).  A 503 response whose body does not decode as text, and a
  200 response whose JSON body \<^verbatim>\<open>response.json()\<close> refuses, each give an error
  record with the description of the exception and no body attached.
\<close>

theorem body_read_failure_counterexample:
  "fst (make_request (APITester ''http://x/'' 0 None) (world_of ticking (Returned undecodable_error)))
     = Inr (Error_record ''2024-01-01T00:00:00'' 2 ''invalid start byte'')
   \<and> error_count (fst (snd (make_request (APITester ''http://x/'' 0 None)
        (world_of ticking (Returned undecodable_error))))) = 2
   \<and> fst (make_request (APITester ''http://x/'' 0 None) (world_of ticking (Returned mistyped_response)))
     = Inr (Error_record ''2024-01-01T00:00:00'' 2 ''unexpected mimetype: text/plain'')
   \<and> success_count (fst (snd (make_request (APITester ''http://x/'' 0 None)
        (world_of ticking (Returned mistyped_response))))) = 1
   \<and> error_count (fst (snd (make_request (APITester ''http://x/'' 0 None)
        (world_of ticking (Returned mistyped_response))))) = 1"
  by (simp add: make_request_def except_Exception_def world_ops Let_def
        world_of_def APITester_def ticking_def undecodable_error_def mistyped_response_def)

text \<open>
  Claim C6, amended.  The classification of a response follows its status
  and whether the read of its body returns.  A response with status 200 for
  which \<^verbatim>\<open>response.json()\<close> returns gives a response record with status 200 and
  the parsed body, and counts as a success only, whatever its text is.  A
  response with any other status for which \<^verbatim>\<open>response.text()\<close> returns gives a
  response record with that status and the text of the body, and counts as an
  error only, whether or not the body would parse as JSON.  In both cases
  exactly one duration sample is appended.  When the read of the body raises
  an \<^verbatim>\<open>Exception\<close> instead, the request returns an error record with the
  description of the exception and no body attached.
\<close>

theorem classification_by_status:
  assumes "transport w (base_url t @ ''/api/jokes/whatever'') (sent w) = Returned r"
  shows "(resp_status r = 200 \<and> resp_json r = Returned d \<longrightarrow>
           make_request t w =
             (Inr (Response_record (datetime_now w (stamps w)) 200
                     (clock w (Suc (ticks w)) - clock w (ticks w)) (JsonData d)),
              t\<lparr>response_times := response_times t @ [clock w (Suc (ticks w)) - clock w (ticks w)],
                success_count := success_count t + 1\<rparr>,
              w\<lparr>ticks := Suc (Suc (ticks w)), sent := Suc (sent w), stamps := Suc (stamps w)\<rparr>))
       \<and> (resp_status r \<noteq> 200 \<and> resp_text r = Returned x \<longrightarrow>
           make_request t w =
             (Inr (Response_record (datetime_now w (stamps w)) (resp_status r)
                     (clock w (Suc (ticks w)) - clock w (ticks w)) (TextData x)),
              t\<lparr>response_times := response_times t @ [clock w (Suc (ticks w)) - clock w (ticks w)],
                error_count := error_count t + 1\<rparr>,
              w\<lparr>ticks := Suc (Suc (ticks w)), sent := Suc (sent w), stamps := Suc (stamps w)\<rparr>))
       \<and> (resp_status r = 200 \<and> resp_json r = Raised e \<or> resp_status r \<noteq> 200 \<and> resp_text r = Raised e \<longrightarrow>
           fst (make_request t w) =
             Inr (Error_record (datetime_now w (stamps w))
                    (clock w (Suc (Suc (ticks w))) - clock w (ticks w)) e))"
  using assms
  by (auto simp: make_request_def except_Exception_def world_ops Let_def)

theorem classification_by_status_witness:
  "transport (world_of ticking (Returned ok_response))
      (base_url (APITester ''http://x/'' 0 None) @ ''/api/jokes/whatever'')
      (sent (world_of ticking (Returned ok_response))) = Returned ok_response
   \<and> resp_status ok_response = 200
   \<and> resp_json ok_response = Returned (JObject [(''ok'', JBool True)])
   \<and> fst (make_request (APITester ''http://x/'' 0 None) (world_of ticking (Returned ok_response)))
        = Inr (Response_record ''2024-01-01T00:00:00'' 200 1 (JsonData (JObject [(''ok'', JBool True)])))
   \<and> success_count (fst (snd (make_request (APITester ''http://x/'' 0 None)
        (world_of ticking (Returned ok_response))))) = 1
   \<and> error_count (fst (snd (make_request (APITester ''http://x/'' 0 None)
        (world_of ticking (Returned ok_response))))) = 0
   \<and> transport (world_of ticking (Returned server_error))
      (base_url (APITester ''http://x/'' 0 None) @ ''/api/jokes/whatever'')
      (sent (world_of ticking (Returned server_error))) = Returned server_error
   \<and> resp_status server_error \<noteq> 200
   \<and> resp_text server_error = Returned ''Internal Server Error''
   \<and> fst (make_request (APITester ''http://x/'' 0 None) (world_of ticking (Returned server_error)))
        = Inr (Response_record ''2024-01-01T00:00:00'' 500 1 (TextData ''Internal Server Error''))
   \<and> success_count (fst (snd (make_request (APITester ''http://x/'' 0 None)
        (world_of ticking (Returned server_error))))) = 0
   \<and> error_count (fst (snd (make_request (APITester ''http://x/'' 0 None)
        (world_of ticking (Returned server_error))))) = 1
   \<and> resp_status mistyped_response = 200
   \<and> resp_json mistyped_response = Raised ''unexpected mimetype: text/plain''
   \<and> fst (make_request (APITester ''http://x/'' 0 None) (world_of ticking (Returned mistyped_response)))
        = Inr (Error_record ''2024-01-01T00:00:00'' 2 ''unexpected mimetype: text/plain'')
   \<and> resp_status undecodable_error \<noteq> 200
   \<and> resp_text undecodable_error = Raised ''invalid start byte''
   \<and> fst (make_request (APITester ''http://x/'' 0 None) (world_of ticking (Returned undecodable_error)))
        = Inr (Error_record ''2024-01-01T00:00:00'' 2 ''invalid start byte'')"
  using classification_by_status [of "world_of ticking (Returned ok_response)"
          "APITester ''http://x/'' 0 None" ok_response "JObject [(''ok'', JBool True)]" "''{ok:true}''" "''none''"]
        classification_by_status [of "world_of ticking (Returned server_error)"
          "APITester ''http://x/'' 0 None" server_error "JObject []" "''Internal Server Error''" "''none''"]
        classification_by_status [of "world_of ticking (Returned mistyped_response)"
          "APITester ''http://x/'' 0 None" mistyped_response "JObject []" "''none''" "''unexpected mimetype: text/plain''"]
        classification_by_status [of "world_of ticking (Returned undecodable_error)"
          "APITester ''http://x/'' 0 None" undecodable_error "JObject []" "''none''" "''invalid start byte''"]
  by (simp add: world_of_def APITester_def ticking_def ok_response_def server_error_def
        mistyped_response_def undecodable_error_def)

text \<open>
  Claim C2, as the code has it.  The claim says that a response with status
  200 whose body does not parse is a success with the raw body substituted
  and is not recorded as an error.  At the concrete response below the
  program returns an error record and increments the error counter.
\<close>

theorem unparseable_body_counterexample:
  "fst (make_request (APITester ''http://x/'' 0 None) (world_of ticking (Returned html_response)))
     = Inr (Error_record ''2024-01-01T00:00:00'' 2 ''Expecting value'')
   \<and> error_count (fst (snd (make_request (APITester ''http://x/'' 0 None)
        (world_of ticking (Returned html_response))))) = 1
   \<and> fst (make_request (APITester ''http://x/'' 0 None) (world_of ticking (Returned html_response)))
     \<noteq> Inr (Response_record ''2024-01-01T00:00:00'' 200 1 (TextData ''<html>''))"
  by (simp add: make_request_def except_Exception_def world_ops Let_def
        world_of_def APITester_def ticking_def html_response_def)

text \<open>
  Claim C2, amended.  For every response with status 200 whose body fails to
  parse as JSON (awaiting \<^verbatim>\<open>response.json()\<close> raises an \<^verbatim>\<open>Exception\<close> with text
  \<open>e\<close>), the handler of line 51 catches the failure: the request returns an
  error record that carries \<open>e\<close> (no raw body is substituted), with the time
  elapsed from line 31 to the handler.  The loop is not aborted: when the cap
  is not reached, this is no statistics iteration and the pacing sleep is not
  interrupted, the iteration completes, prints the line of the request with
  the error marker, and the loop goes on with its next iteration under the
  same cap.
\<close>

theorem unparseable_body_is_error:
  assumes "transport w (base_url t @ ''/api/jokes/whatever'') (sent w) = Returned r"
    and "resp_status r = 200" and "resp_json r = Raised e"
  shows "fst (make_request t w) =
           Inr (Error_record (datetime_now w (stamps w))
                  (clock w (Suc (Suc (ticks w))) - clock w (ticks w)) e)
       \<and> (\<not> cap_reached t \<longrightarrow> (request_count t + 1) mod 10 \<noteq> 0 \<longrightarrow> \<not> sleep_cancelled w (slept w) \<longrightarrow>
            (\<exists>t' w'. loop_body t w = (Inr (), t', w')
               \<and> run_loop (Suc n) t w = run_loop n t' w'
               \<and> request_count t' = request_count t + 1 \<and> max_requests t' = max_requests t
               \<and> stdout w' = stdout w @ [RequestLine (request_count t + 1) ERROR
                    (clock w (Suc (Suc (ticks w))) - clock w (ticks w)) (datetime_now w (stamps w))]))"
proof -
  let ?el = "clock w (Suc (Suc (ticks w))) - clock w (ticks w)"
  let ?s1 = "clock w (Suc (ticks w)) - clock w (ticks w)"
  have req: "\<And>u. base_url u = base_url t \<Longrightarrow> make_request u w =
     (Inr (Error_record (datetime_now w (stamps w)) ?el e),
      u\<lparr>response_times := response_times u @ [?s1, ?el],
        success_count := success_count u + 1, error_count := error_count u + 1\<rparr>,
      w\<lparr>ticks := Suc (Suc (Suc (ticks w))), sent := Suc (sent w), stamps := Suc (stamps w)\<rparr>)"
    using assms
    by (simp add: make_request_def except_Exception_def world_ops Let_def)
  show ?thesis
  proof (intro conjI impI)
    show "fst (make_request t w) = Inr (Error_record (datetime_now w (stamps w)) ?el e)"
      by (simp add: req)
  next
    assume a: "\<not> cap_reached t" "(request_count t + 1) mod 10 \<noteq> 0" "\<not> sleep_cancelled w (slept w)"
    let ?t' = "t\<lparr>request_count := request_count t + 1,
        response_times := response_times t @ [?s1, ?el],
        success_count := success_count t + 1, error_count := error_count t + 1\<rparr>"
    let ?w' = "w\<lparr>ticks := Suc (Suc (Suc (ticks w))), sent := Suc (sent w), stamps := Suc (stamps w),
        stdout := stdout w @ [RequestLine (request_count t + 1) ERROR ?el (datetime_now w (stamps w))],
        slept := Suc (slept w)\<rparr>"
    have lb: "loop_body t w = (Inr (), ?t', ?w')"
      using a by (simp add: loop_body_def req world_ops Let_def)
    have rl: "run_loop (Suc n) t w = run_loop n ?t' ?w'"
      by (simp add: a(1) lb)
    show "\<exists>t' w'. loop_body t w = (Inr (), t', w')
               \<and> run_loop (Suc n) t w = run_loop n t' w'
               \<and> request_count t' = request_count t + 1 \<and> max_requests t' = max_requests t
               \<and> stdout w' = stdout w @ [RequestLine (request_count t + 1) ERROR ?el (datetime_now w (stamps w))]"
      by (intro exI conjI, rule lb, rule rl) simp_all
  qed
qed

theorem unparseable_body_is_error_witness:
  "transport (world_of ticking (Returned html_response))
      (base_url (APITester ''http://y/'' 1 (Some 1)) @ ''/api/jokes/whatever'')
      (sent (world_of ticking (Returned html_response))) = Returned html_response
   \<and> resp_status html_response = 200
   \<and> resp_json html_response = Raised ''Expecting value''
   \<and> \<not> cap_reached (APITester ''http://y/'' 1 (Some 1))
   \<and> \<not> sleep_cancelled (world_of ticking (Returned html_response))
          (slept (world_of ticking (Returned html_response)))
   \<and> fst (make_request (APITester ''http://y/'' 1 (Some 1)) (world_of ticking (Returned html_response)))
        = Inr (Error_record ''2024-01-01T00:00:00'' 2 ''Expecting value'')
   \<and> fst (loop_body (APITester ''http://y/'' 1 (Some 1)) (world_of ticking (Returned html_response)))
        = Inr ()
   \<and> stdout (snd (snd (loop_body (APITester ''http://y/'' 1 (Some 1))
        (world_of ticking (Returned html_response)))))
        = [RequestLine 1 ERROR 2 ''2024-01-01T00:00:00'']
   \<and> fst (the (run_loop (Suc 0) (APITester ''http://y/'' 1 (Some 1))
        (world_of ticking (Returned html_response)))) = Inr ()"
  using unparseable_body_is_error [of "world_of ticking (Returned html_response)"
          "APITester ''http://y/'' 1 (Some 1)" html_response "''Expecting value''" 0]
  by (auto simp: world_of_def APITester_def ticking_def html_response_def cap_reached_def)

text \<open>
  Where no read of a body raises, a request that returns counts exactly once
  and appends exactly one sample.
\<close>

lemma make_request_counts_once:
  assumes "make_request t w = (Inr res, t', w')"
    and "\<forall>r. transport w (base_url t @ ''/api/jokes/whatever'') (sent w) = Returned r \<longrightarrow>
           (if resp_status r = 200 then \<forall>e. resp_json r \<noteq> Raised e else \<forall>e. resp_text r \<noteq> Raised e)"
  shows "success_count t' + error_count t' = success_count t + error_count t + 1
       \<and> length (response_times t') = length (response_times t) + 1"
  using assms
  by (auto simp: make_request_def except_Exception_def world_ops Let_def
           split: awaited.splits if_splits)

text \<open>
  Claim C1, at a failing input.  The claim says that after \<open>N\<close> iterations
  the two outcome counters add up to \<open>N\<close> and that there are \<open>N\<close> duration
  samples.  A run of one request whose response has status 200 and a body
  that does not parse ends with one request issued, both counters at one and
  two duration samples: lines 35 and 39 have run when \<^verbatim>\<open>response.json()\<close>
  raises, and the handler runs lines 52 and 54 on top of them.
\<close>

theorem counters_after_unparseable_body:
  "request_count (fst (snd (the (main 1 ''http://x/'' 0 (Some 1)
       (world_of ticking (Returned html_response)))))) = 1
   \<and> success_count (fst (snd (the (main 1 ''http://x/'' 0 (Some 1)
       (world_of ticking (Returned html_response)))))) = 1
   \<and> error_count (fst (snd (the (main 1 ''http://x/'' 0 (Some 1)
       (world_of ticking (Returned html_response)))))) = 1
   \<and> response_times (fst (snd (the (main 1 ''http://x/'' 0 (Some 1)
       (world_of ticking (Returned html_response)))))) = [1, 2]"
  by code_simp

subsection \<open>The statistics operation, continued\<close>

text \<open>
  Claim C4, at a failing input.  The claim says that computing the
  statistics never raises once a sample exists, also when no wall-clock time
  has elapsed since the start of the run.  With a clock that reads the same
  value throughout a run of one request, the final \<open>print_stats\<close> has one
  sample, finds \<^verbatim>\<open>elapsed\<close> zero at line 71 and raises \<^verbatim>\<open>ZeroDivisionError\<close> at
  line 72; nothing catches it.
\<close>

theorem throughput_division_by_zero:
  "fst (the (main 1 ''http://x/'' 0 (Some 1) (world_of frozen (Returned ok_response))))
     = Inl ZeroDivisionError
   \<and> response_times (fst (snd (the (main 1 ''http://x/'' 0 (Some 1)
       (world_of frozen (Returned ok_response)))))) = [0]"
  by code_simp

subsection \<open>The run loop\<close>

text \<open>
  Claim C3, at a failing input.  The claim says that with cap 0 the loop
  body never executes.  The test of line 96 reads the cap by its truth value,
  and 0 is false: with cap 0 the cap is never reached, and a run that is
  interrupted during its third pacing sleep has issued three requests.
\<close>

theorem cap_zero_is_unbounded:
  "\<not> cap_reached (APITester ''http://x/'' 0 (Some 0))
   \<and> sent (snd (snd (the (main 5 ''http://x/'' 0 (Some 0)
        (world_of ticking (Returned ok_response)\<lparr>sleep_cancelled := (\<lambda>k. k = 2)\<rparr>))))) = 3
   \<and> request_count (fst (snd (the (main 5 ''http://x/'' 0 (Some 0)
        (world_of ticking (Returned ok_response)\<lparr>sleep_cancelled := (\<lambda>k. k = 2)\<rparr>))))) = 3"
  by code_simp

text \<open>
  Claim C8.  In a run with cap \<open>c \<ge> 1\<close> that nobody interrupts and whose
  clock, read after the start of the run, never shows the start time again,
  \<open>main\<close> returns normally once the fuel covers \<open>c\<close> iterations; it has issued
  \<open>c\<close> requests, and its output is, for each request \<open>k\<close> from 1 to \<open>c\<close> in
  order, the line of request \<open>k\<close> followed by a statistics block exactly when
  \<open>k\<close> is a multiple of 10, and then one final statistics block with total
  \<open>c\<close>.  For \<open>c = 25\<close> these are the blocks after requests 10 and 20 and the
  final one.
\<close>

theorem stats_every_tenth_request:
  assumes "uninterrupted w" "\<forall>k>ticks w. clock w k \<noteq> clock w (ticks w)" "1 \<le> c" "nat c \<le> n"
  shows "\<exists>t' w'. main n url ival (Some c) w = Some (Inr (), t', w')
       \<and> request_count t' = c \<and> sent w' = sent w + nat c
       \<and> marks (stdout w') = marks (stdout w) @ concat (map marks_of_request [1..c]) @ [Inr c]"
proof -
  let ?t = "APITester url ival (Some c)"
  let ?w4 = "print_banner ?t w"
  let ?s = "clock w (ticks w)"
  let ?t1 = "?t\<lparr>start_time := Some ?s\<rparr>"
  let ?w5 = "?w4\<lparr>ticks := Suc (ticks w)\<rparr>"
  note b = print_banner_frame [of ?t w]
  have e4: "env ?w4 = env w" and k4: "ticks ?w4 = ticks w"
    and m4: "marks (stdout ?w4) = marks (stdout w)" and s4: "sent ?w4 = sent w"
    using b by simp_all
  have c4: "clock ?w4 = clock w" and i4: "sigint_at_startup ?w4 = sigint_at_startup w"
    using e4 by (simp_all add: env_def)
  have ni: "\<not> sigint_at_startup ?w4" using i4 assms(1) by (simp add: uninterrupted_def)
  have rn: "run n ?t w = run_loop n ?t1 ?w5"
    using ni by (simp add: run_def time_time_def Let_def c4 k4)
  have e5: "env ?w5 = env w" using e4 by (simp add: env_def)
  have u5: "uninterrupted ?w5" using uninterrupted_env [OF e5] assms(1) by simp
  have ck5: "\<forall>k\<ge>ticks ?w5. clock ?w5 k \<noteq> ?s" using assms(2) c4 by simp
  have "\<exists>t' w'. run_loop n ?t1 ?w5 = Some (Inr (), t', w') \<and> request_count t' = c
       \<and> start_time t' = Some ?s \<and> env w' = env ?w5 \<and> ticks ?w5 \<le> ticks w'
       \<and> marks (stdout w') = marks (stdout ?w5) @ concat (map marks_of_request [request_count ?t1 + 1..c])
       \<and> (response_times ?t1 \<noteq> [] \<or> request_count ?t1 < c \<longrightarrow> response_times t' \<noteq> [])
       \<and> sent w' = sent ?w5 + nat (c - request_count ?t1)"
    using assms(3,4) by (intro run_loop_completes [OF u5 _ ck5]) (simp_all add: APITester_def)
  then obtain t1 w1 where
    rl: "run_loop n ?t1 ?w5 = Some (Inr (), t1, w1)" and rc: "request_count t1 = c"
    and st: "start_time t1 = Some ?s" and e1: "env w1 = env ?w5" and k1: "ticks ?w5 \<le> ticks w1"
    and m1: "marks (stdout w1) = marks (stdout ?w5) @ concat (map marks_of_request [request_count ?t1 + 1..c])"
    and ne: "response_times ?t1 \<noteq> [] \<or> request_count ?t1 < c \<longrightarrow> response_times t1 \<noteq> []"
    and s1: "sent w1 = sent ?w5 + nat (c - request_count ?t1)"
    by blast
  have ne1: "response_times t1 \<noteq> []" using ne assms(3) by (simp add: APITester_def)
  have m1': "marks (stdout w1) = marks (stdout w) @ concat (map marks_of_request [1..c])"
    using m1 m4 by (simp add: APITester_def)
  have s1': "sent w1 = sent w + nat c" using s1 s4 by (simp add: APITester_def)
  have "clock w1 = clock w" using e1 e5 by (simp add: env_def)
  moreover have "ticks w < ticks w1" using k1 by simp
  ultimately have ck: "clock w1 (ticks w1) \<noteq> ?s" using assms(2) by simp
  from print_stats_emits [OF ne1 st ck] obtain w2 where
    ps: "print_stats t1 w1 = (Inr (), t1, w2)"
    and m2: "marks (stdout w2) = marks (stdout w1) @ [Inr (request_count t1)]" by blast
  have s2: "sent w2 = sent w1" using print_stats_frame' [OF ps] by simp
  have "main n url ival (Some c) w = Some (Inr (), t1, w2)"
    using rn rl ps by (simp add: main_def Let_def)
  then show ?thesis using rc m2 m1' s2 s1' by simp
qed

lemma marks_25:
  "concat (map marks_of_request [1..25]) =
     [Inl 1, Inl 2, Inl 3, Inl 4, Inl 5, Inl 6, Inl 7, Inl 8, Inl 9, Inl 10, Inr 10,
      Inl 11, Inl 12, Inl 13, Inl 14, Inl 15, Inl 16, Inl 17, Inl 18, Inl 19, Inl 20, Inr 20,
      Inl 21, Inl 22, Inl 23, Inl 24, Inl 25]"
  by code_simp

lemma uninterrupted_world_of: "uninterrupted (world_of tick (Returned ok_response))"
  by (simp add: uninterrupted_def world_of_def ok_response_def)

theorem stats_every_tenth_request_witness:
  "uninterrupted (world_of ticking (Returned ok_response))
   \<and> 1 \<le> (25::int) \<and> nat 25 \<le> (25::nat)
   \<and> (\<exists>t' w'. main 25 ''http://x/'' 0 (Some 25) (world_of ticking (Returned ok_response))
                  = Some (Inr (), t', w')
         \<and> request_count t' = 25 \<and> sent w' = 25
         \<and> marks (stdout w') =
             [Inl 1, Inl 2, Inl 3, Inl 4, Inl 5, Inl 6, Inl 7, Inl 8, Inl 9, Inl 10, Inr 10,
              Inl 11, Inl 12, Inl 13, Inl 14, Inl 15, Inl 16, Inl 17, Inl 18, Inl 19, Inl 20, Inr 20,
              Inl 21, Inl 22, Inl 23, Inl 24, Inl 25, Inr 25])"
proof -
  let ?w = "world_of ticking (Returned ok_response)"
  have u: "uninterrupted ?w" by (rule uninterrupted_world_of)
  have c: "\<forall>k>ticks ?w. clock ?w k \<noteq> clock ?w (ticks ?w)"
    by (simp add: world_of_def ticking_def)
  have s: "sent ?w = 0" and o: "stdout ?w = []" by (simp_all add: world_of_def)
  from stats_every_tenth_request [OF u c, of 25 25 "''http://x/''" 0]
  show ?thesis using u by (simp add: marks_25 s o)
qed

text \<open>
  Claim C10.  Whatever state a run of a fresh tester ends in (the cap
  reached, an exception, or an interruption at any suspension point, also
  before the first request and before line 92), a non-empty sample list
  comes with a start timestamp that is set.  So no \<open>print_stats\<close> inside the
  run raises \<^verbatim>\<open>TypeError\<close>, and neither does a \<open>print_stats\<close> on the final state,
  in any world: line 71 never subtracts \<^verbatim>\<open>None\<close>.
\<close>

theorem samples_imply_start_time:
  assumes "run n (APITester url ival cap) w = Some (r, t', w')"
  shows "(response_times t' \<noteq> [] \<longrightarrow> start_time t' \<noteq> None)
       \<and> r \<noteq> Inl TypeError
       \<and> fst (print_stats t' w'') \<noteq> Inl TypeError"
  using run_start_time [OF assms] by (auto simp: print_stats_TypeError)

theorem samples_imply_start_time_witness:
  "run 0 (APITester ''http://x/'' 1 None)
       (world_of ticking (Returned ok_response)\<lparr>sigint_at_startup := True\<rparr>)
     = Some (Inl KeyboardInterrupt, APITester ''http://x/'' 1 None,
             print_banner (APITester ''http://x/'' 1 None)
               (world_of ticking (Returned ok_response)\<lparr>sigint_at_startup := True\<rparr>))
   \<and> start_time (APITester ''http://x/'' 1 None) = None
   \<and> response_times (APITester ''http://x/'' 1 None) = []
   \<and> fst (print_stats (APITester ''http://x/'' 1 None)
        (print_banner (APITester ''http://x/'' 1 None)
           (world_of ticking (Returned ok_response)\<lparr>sigint_at_startup := True\<rparr>))) \<noteq> Inl TypeError"
proof -
  let ?t = "APITester ''http://x/'' 1 None"
  let ?w = "world_of ticking (Returned ok_response)\<lparr>sigint_at_startup := True\<rparr>"
  have r: "run 0 ?t ?w = Some (Inl KeyboardInterrupt, ?t, print_banner ?t ?w)"
    by (simp add: run_def print_banner_def print_def world_of_def APITester_def Let_def)
  from samples_imply_start_time [OF r, of "print_banner ?t ?w"] r
  show ?thesis by (simp add: APITester_def)
qed

end
